theory Spec2Isabelle
  imports Main
begin

section \<open>OPD visits (models/opd.py, class OPDVisit)\<close>

text \<open>
  An \<open>OPDVisit\<close> object has twelve attributes. All but \<open>vital_signs\<close> are Python
  strings; \<open>vital_signs\<close> is a dictionary from strings to strings. The clock reading
  \<open>datetime.now().strftime(...)\<close> is passed to the model as an argument. The
  attribute \<open>notes\<close> is the field \<open>visit_notes\<close>.
\<close>

record opd_visit =
  visit_id :: string
  patient_id :: string
  doctor_name :: string
  visit_date :: string
  symptoms :: string
  diagnosis :: string
  prescription :: string
  lab_tests :: string
  follow_up_date :: string
  visit_notes :: string
  status :: string
  vital_signs :: "string \<rightharpoonup> string"

text \<open>
  \<^verbatim>\<open>
  def mark_completed(self):
      self.status = "Completed"
      if not self.visit_date:
          self.visit_date = datetime.now().strftime("%Y-%m-%d %H:%M:%S")
  \<close>
  A string is falsy exactly when it is empty.
\<close>

definition mark_completed :: "string \<Rightarrow> opd_visit \<Rightarrow> opd_visit" where
  "mark_completed now v =
     (let v1 = v\<lparr>status := ''Completed''\<rparr>
      in if visit_date v1 = [] then v1\<lparr>visit_date := now\<rparr> else v1)"

section \<open>The announcement system (utils/announcement.py, class AnnouncementSystem)\<close>

text \<open>
  The instance state that the modelled methods read or write: the running flag, whether
  text-to-speech was found at construction, the pending list (never written after
  construction), the set of announcement keys and the polling interval. The last two
  fields are not attributes of the class: \<open>sink_log\<close> records, in order, every call
  of the display callback (returned or raised), every use of the speech engine
  (spoken or failed with the error line printed) and the other console lines;
  \<open>poll_announced\<close> records the \<open>(patient_id, visit_id)\<close> of every visit for which
  the poll cycle's call of \<open>_announce_patient_completion\<close> returned.
\<close>

datatype event =
    Callback string
  | CallbackRaised string
  | Spoken string
  | TtsErrorPrinted string
  | Printed string

record announcement_system =
  is_running :: bool
  tts_available :: bool
  pending_announcements :: "string list"
  announced_patients :: "string set"
  announcement_interval :: int
  sink_log :: "event list"
  poll_announced :: "(string \<times> string) list"

text \<open>
  The object that \<open>__init__\<close> leaves when it returns; \<open>tts\<close> says whether the import
  and the initialisation of \<open>pyttsx3\<close> succeeded. With the import failing the
  constructor prints one line.
\<close>

definition AnnouncementSystem_init :: "bool \<Rightarrow> announcement_system" where
  "AnnouncementSystem_init tts =
     \<lparr>is_running = False, tts_available = tts, pending_announcements = [],
      announced_patients = {}, announcement_interval = 30,
      sink_log = (if tts then []
                  else [Printed ''Text-to-speech not available. Using callback method only.'']),
      poll_announced = []\<rparr>"

text \<open>
  \<^verbatim>\<open>
  def set_announcement_interval(self, interval_seconds: int):
      self.announcement_interval = max(10, interval_seconds)
  \<close>
\<close>

definition set_announcement_interval :: "int \<Rightarrow> announcement_system \<Rightarrow> announcement_system" where
  "set_announcement_interval interval_seconds s =
     s\<lparr>announcement_interval := max 10 interval_seconds\<rparr>"

text \<open>The dictionary returned by \<open>get_announcement_status\<close>, one field per key.\<close>

record announcement_status =
  st_is_running :: bool
  st_tts_available :: bool
  st_announcement_interval :: int
  st_announced_today :: nat
  st_pending_announcements :: nat

definition get_announcement_status :: "announcement_system \<Rightarrow> announcement_status" where
  "get_announcement_status s =
     \<lparr>st_is_running = is_running s,
      st_tts_available = tts_available s,
      st_announcement_interval = announcement_interval s,
      st_announced_today = card (announced_patients s),
      st_pending_announcements = length (pending_announcements s)\<rparr>"

section \<open>The OPD waiting queue (models/opd.py, class OPDQueue)\<close>

text \<open>
  \<open>queue\<close> is the list of waiting patient ids, \<open>completed_today\<close> the list of
  dictionaries with the keys \<open>name\<close>, \<open>completed_at\<close> and \<open>announced\<close>.
\<close>

record completion_record =
  name :: string
  completed_at :: string
  announced :: bool

record opd_queue =
  queue :: "string list"
  completed_today :: "completion_record list"

definition OPDQueue_init :: opd_queue where
  "OPDQueue_init = \<lparr>queue = [], completed_today = []\<rparr>"

text \<open>
  \<^verbatim>\<open>
  def add_patient(self, patient_id):
      if patient_id not in self.queue:
          self.queue.append(patient_id)
  def remove_patient(self, patient_id):
      if patient_id in self.queue:
          self.queue.remove(patient_id)
  \<close>
  Python's \<open>list.remove\<close> deletes the first occurrence.
\<close>

definition add_patient :: "string \<Rightarrow> opd_queue \<Rightarrow> opd_queue" where
  "add_patient pid q =
     (if pid \<notin> set (queue q) then q\<lparr>queue := queue q @ [pid]\<rparr> else q)"

definition remove_patient :: "string \<Rightarrow> opd_queue \<Rightarrow> opd_queue" where
  "remove_patient pid q =
     (if pid \<in> set (queue q) then q\<lparr>queue := remove1 pid (queue q)\<rparr> else q)"

definition get_next_patient :: "opd_queue \<Rightarrow> string option" where
  "get_next_patient q = (case queue q of [] \<Rightarrow> None | x # _ \<Rightarrow> Some x)"

text \<open>Python's \<open>list.index\<close>; \<open>None\<close> stands for the \<open>ValueError\<close> it raises.\<close>

fun list_index :: "'a list \<Rightarrow> 'a \<Rightarrow> nat option" where
  "list_index [] y = None"
| "list_index (x # xs) y =
     (if x = y then Some 0 else map_option Suc (list_index xs y))"

text \<open>
  \<^verbatim>\<open>
  def get_queue_position(self, patient_id):
      try:
          return self.queue.index(patient_id) + 1
      except ValueError:
          return -1
  \<close>
\<close>

definition get_queue_position :: "string \<Rightarrow> opd_queue \<Rightarrow> int" where
  "get_queue_position pid q =
     (case list_index (queue q) pid of Some i \<Rightarrow> int i + 1 | None \<Rightarrow> - 1)"

definition mark_patient_completed :: "string \<Rightarrow> string \<Rightarrow> opd_queue \<Rightarrow> opd_queue" where
  "mark_patient_completed now patient_name q =
     q\<lparr>completed_today := completed_today q @
          [\<lparr>name = patient_name, completed_at = now, announced = False\<rparr>]\<rparr>"

definition get_pending_announcements :: "opd_queue \<Rightarrow> completion_record list" where
  "get_pending_announcements q = filter (\<lambda>p. \<not> announced p) (completed_today q)"

text \<open>
  \<^verbatim>\<open>
  def mark_announced(self, patient_name):
      for patient in self.completed_today:
          if patient['name'] == patient_name and not patient['announced']:
              patient['announced'] = True
              break
  \<close>
\<close>

fun mark_announced_loop :: "string \<Rightarrow> completion_record list \<Rightarrow> completion_record list" where
  "mark_announced_loop patient_name [] = []"
| "mark_announced_loop patient_name (p # ps) =
     (if name p = patient_name \<and> \<not> announced p
      then p\<lparr>announced := True\<rparr> # ps
      else p # mark_announced_loop patient_name ps)"

definition mark_announced :: "string \<Rightarrow> opd_queue \<Rightarrow> opd_queue" where
  "mark_announced patient_name q =
     q\<lparr>completed_today := mark_announced_loop patient_name (completed_today q)\<rparr>"

definition clear_completed_today :: "opd_queue \<Rightarrow> opd_queue" where
  "clear_completed_today q = q\<lparr>completed_today := [], queue := []\<rparr>"

text \<open>A call of one of the mutating methods, and a sequence of calls on a new queue.\<close>

datatype opd_queue_call =
    Add_patient string
  | Remove_patient string
  | Mark_patient_completed string string
  | Mark_announced string
  | Clear_completed_today

fun apply_opd_queue_call :: "opd_queue_call \<Rightarrow> opd_queue \<Rightarrow> opd_queue" where
  "apply_opd_queue_call (Add_patient pid) q = add_patient pid q"
| "apply_opd_queue_call (Remove_patient pid) q = remove_patient pid q"
| "apply_opd_queue_call (Mark_patient_completed now n) q = mark_patient_completed now n q"
| "apply_opd_queue_call (Mark_announced n) q = mark_announced n q"
| "apply_opd_queue_call Clear_completed_today q = clear_completed_today q"

definition opd_queue_after :: "opd_queue_call list \<Rightarrow> opd_queue" where
  "opd_queue_after calls = fold apply_opd_queue_call calls OPDQueue_init"

section \<open>Doctor schedules (models/appointment.py)\<close>

text \<open>
  An \<open>Appointment\<close> object; the attributes \<open>patient_id\<close>, \<open>doctor_name\<close>, \<open>status\<close>
  and \<open>notes\<close>, whose names the visit record has taken, carry the prefix \<open>appt_\<close>.
\<close>

record appointment =
  appointment_id :: string
  appt_patient_id :: string
  appt_doctor_name :: string
  department :: string
  appointment_date :: string
  appointment_time :: string
  appt_status :: string
  appt_notes :: string
  created_date :: string

text \<open>An entry of \<open>DoctorSchedule.DEFAULT_DOCTORS\<close>: the keys \<open>name\<close>, \<open>department\<close>, \<open>slots\<close>.\<close>

record doctor =
  doc_name :: string
  doc_department :: string
  slots :: "string list"

definition DEFAULT_DOCTORS :: "doctor list" where
  "DEFAULT_DOCTORS =
     [\<lparr>doc_name = ''Dr. Smith'', doc_department = ''General Medicine'',
       slots = [''09:00'', ''10:00'', ''11:00'', ''14:00'', ''15:00'', ''16:00'']\<rparr>,
      \<lparr>doc_name = ''Dr. Johnson'', doc_department = ''Cardiology'',
       slots = [''09:30'', ''10:30'', ''11:30'', ''14:30'', ''15:30'']\<rparr>,
      \<lparr>doc_name = ''Dr. Williams'', doc_department = ''Pediatrics'',
       slots = [''08:00'', ''09:00'', ''10:00'', ''11:00'', ''14:00'', ''15:00'']\<rparr>,
      \<lparr>doc_name = ''Dr. Brown'', doc_department = ''Orthopedics'',
       slots = [''10:00'', ''11:00'', ''14:00'', ''15:00'', ''16:00'']\<rparr>,
      \<lparr>doc_name = ''Dr. Davis'', doc_department = ''Dermatology'',
       slots = [''09:00'', ''10:00'', ''11:00'', ''15:00'', ''16:00'']\<rparr>]"

text \<open>
  The first loop of \<open>get_available_slots\<close>: the slots of the first doctor of that name,
  the empty list when there is none.
\<close>

fun find_doctor_slots :: "doctor list \<Rightarrow> string \<Rightarrow> string list" where
  "find_doctor_slots [] dn = []"
| "find_doctor_slots (d # ds) dn =
     (if doc_name d = dn then slots d else find_doctor_slots ds dn)"

text \<open>The second loop: the times of the appointments that block a slot, in list order.\<close>

fun collect_booked_slots :: "string \<Rightarrow> string \<Rightarrow> appointment list \<Rightarrow> string list" where
  "collect_booked_slots dn date [] = []"
| "collect_booked_slots dn date (a # as) =
     (if appt_doctor_name a = dn \<and> appointment_date a = date
         \<and> appt_status a \<in> set [''Scheduled'', ''Completed'']
      then appointment_time a # collect_booked_slots dn date as
      else collect_booked_slots dn date as)"

text \<open>
  \<^verbatim>\<open>
  if not doctor_slots:
      return []
  ...
  available_slots = [slot for slot in doctor_slots if slot not in booked_slots]
  \<close>
\<close>

definition get_available_slots_in ::
  "doctor list \<Rightarrow> string \<Rightarrow> string \<Rightarrow> appointment list \<Rightarrow> string list" where
  "get_available_slots_in doctors dn date existing_appointments =
     (let doctor_slots = find_doctor_slots doctors dn
      in if doctor_slots = [] then []
         else let booked_slots = collect_booked_slots dn date existing_appointments
              in filter (\<lambda>slot. slot \<notin> set booked_slots) doctor_slots)"

definition get_available_slots :: "string \<Rightarrow> string \<Rightarrow> appointment list \<Rightarrow> string list" where
  "get_available_slots = get_available_slots_in DEFAULT_DOCTORS"

section \<open>The announcement queue (utils/announcement.py, class AnnouncementQueue)\<close>

text \<open>
  A queue item is a dictionary with the keys \<open>patient_name\<close>, \<open>patient_id\<close>,
  \<open>priority\<close>, \<open>added_at\<close> and \<open>announced\<close>; \<open>mark_announced\<close> adds the key
  \<open>announced_at\<close>. A reading of \<open>datetime.now()\<close> is a natural number and is passed
  in by the caller of the model. The keys \<open>patient_id\<close> and \<open>announced\<close> are the
  fields \<open>item_patient_id\<close> and \<open>item_announced\<close>, the attribute \<open>queue\<close> of the
  class is the field \<open>items\<close>, and its method \<open>mark_announced\<close> is
  \<open>AnnouncementQueue_mark_announced\<close>.
\<close>

record announcement_item =
  patient_name :: string
  item_patient_id :: string
  priority :: int
  added_at :: nat
  item_announced :: bool
  announced_at :: "nat option"

record announcement_queue =
  items :: "announcement_item list"
  current_position :: nat

definition AnnouncementQueue_init :: announcement_queue where
  "AnnouncementQueue_init = \<lparr>items = [], current_position = 0\<rparr>"

text \<open>
  \<^verbatim>\<open>
  inserted = False
  for i, item in enumerate(self.queue):
      if priority > item['priority']:
          self.queue.insert(i, announcement_item)
          inserted = True
          break
  if not inserted:
      self.queue.append(announcement_item)
  \<close>
\<close>

fun insert_by_priority :: "announcement_item \<Rightarrow> announcement_item list \<Rightarrow> announcement_item list" where
  "insert_by_priority new [] = [new]"
| "insert_by_priority new (item # rest) =
     (if priority new > priority item then new # item # rest
      else item # insert_by_priority new rest)"

definition add_to_queue ::
  "string \<Rightarrow> string \<Rightarrow> int \<Rightarrow> nat \<Rightarrow> announcement_queue \<Rightarrow> announcement_queue" where
  "add_to_queue pname pid prio now q =
     q\<lparr>items := insert_by_priority
          \<lparr>patient_name = pname, item_patient_id = pid, priority = prio, added_at = now,
           item_announced = False, announced_at = None\<rparr> (items q)\<rparr>"

fun first_not_announced :: "announcement_item list \<Rightarrow> announcement_item option" where
  "first_not_announced [] = None"
| "first_not_announced (item # rest) =
     (if \<not> item_announced item then Some item else first_not_announced rest)"

definition get_next_announcement :: "announcement_queue \<Rightarrow> announcement_item option" where
  "get_next_announcement q = first_not_announced (items q)"

text \<open>
  \<^verbatim>\<open>
  def mark_announced(self, patient_id):
      for item in self.queue:
          if item['patient_id'] == patient_id and not item['announced']:
              item['announced'] = True
              item['announced_at'] = datetime.now()
              break
  \<close>
\<close>

fun mark_item_announced :: "string \<Rightarrow> nat \<Rightarrow> announcement_item list \<Rightarrow> announcement_item list" where
  "mark_item_announced pid now [] = []"
| "mark_item_announced pid now (item # rest) =
     (if item_patient_id item = pid \<and> \<not> item_announced item
      then item\<lparr>item_announced := True, announced_at := Some now\<rparr> # rest
      else item # mark_item_announced pid now rest)"

definition AnnouncementQueue_mark_announced ::
  "string \<Rightarrow> nat \<Rightarrow> announcement_queue \<Rightarrow> announcement_queue" where
  "AnnouncementQueue_mark_announced pid now q = q\<lparr>items := mark_item_announced pid now (items q)\<rparr>"

definition remove_from_queue :: "string \<Rightarrow> announcement_queue \<Rightarrow> announcement_queue" where
  "remove_from_queue pid q = q\<lparr>items := filter (\<lambda>item. item_patient_id item \<noteq> pid) (items q)\<rparr>"

definition clear_queue :: "announcement_queue \<Rightarrow> announcement_queue" where
  "clear_queue q = q\<lparr>items := [], current_position := 0\<rparr>"

text \<open>A call of a mutating method, and a sequence of calls on a new queue.\<close>

datatype announcement_queue_call =
    Add_to_queue string string int nat
  | Mark_announced_item string nat
  | Remove_from_queue string
  | Clear_queue

fun apply_announcement_queue_call ::
  "announcement_queue_call \<Rightarrow> announcement_queue \<Rightarrow> announcement_queue" where
  "apply_announcement_queue_call (Add_to_queue pname pid prio now) q = add_to_queue pname pid prio now q"
| "apply_announcement_queue_call (Mark_announced_item pid now) q = AnnouncementQueue_mark_announced pid now q"
| "apply_announcement_queue_call (Remove_from_queue pid) q = remove_from_queue pid q"
| "apply_announcement_queue_call Clear_queue q = clear_queue q"

definition announcement_queue_after :: "announcement_queue_call list \<Rightarrow> announcement_queue" where
  "announcement_queue_after calls = fold apply_announcement_queue_call calls AnnouncementQueue_init"

text \<open>The clock readings of the \<open>add_to_queue\<close> calls of a sequence, in call order.\<close>

fun add_times :: "announcement_queue_call list \<Rightarrow> nat list" where
  "add_times [] = []"
| "add_times (Add_to_queue pname pid prio now # calls) = now # add_times calls"
| "add_times (c # calls) = add_times calls"

text \<open>
  Two orderings of an item list: no item stands behind one of strictly lower priority,
  and of two items of the same priority the one added earlier stands first.
\<close>

abbreviation by_priority :: "announcement_item list \<Rightarrow> bool" where
  "by_priority xs \<equiv> sorted_wrt (\<lambda>a b. priority b \<le> priority a) xs"

abbreviation fifo :: "announcement_item list \<Rightarrow> bool" where
  "fifo xs \<equiv> sorted_wrt (\<lambda>a b. priority a = priority b \<longrightarrow> added_at a \<le> added_at b) xs"

section \<open>The record store as the announcement system reads it (utils/data_manager.py)\<close>

text \<open>
  A \<open>Patient\<close> object (models/patient.py); its attributes \<open>patient_id\<close> and \<open>name\<close>
  are the fields \<open>pat_patient_id\<close> and \<open>pat_name\<close>.
\<close>

record patient =
  pat_patient_id :: string
  pat_name :: string
  age :: int
  gender :: string
  contact :: string
  address :: string
  phone :: string
  registration_date :: string
  appointments :: "string list"
  opd_visits :: "string list"
  medical_history :: "(string \<rightharpoonup> string) list"

text \<open>
  The two collections the poll cycle reads: what \<open>get_patients()\<close> and
  \<open>get_opd_visits()\<close> return at the moment of the call.
\<close>

record data_manager =
  stored_patients :: "patient list"
  stored_opd_visits :: "opd_visit list"

text \<open>
  \<^verbatim>\<open>
  def get_patient_by_id(self, patient_id):
      patients = self.get_patients()
      for patient in patients:
          if patient.patient_id == patient_id:
              return patient
      return None
  \<close>
\<close>

fun find_patient :: "string \<Rightarrow> patient list \<Rightarrow> patient option" where
  "find_patient pid [] = None"
| "find_patient pid (p # ps) = (if pat_patient_id p = pid then Some p else find_patient pid ps)"

definition get_patient_by_id :: "string \<Rightarrow> data_manager \<Rightarrow> patient option" where
  "get_patient_by_id pid dm = find_patient pid (stored_patients dm)"

text \<open>Python exceptions, and the outcome of a call: a returned value or a raised exception.\<close>

datatype exn = ValueError | CallbackException | SpeechLibraryException

datatype 'a outcome = Returned 'a | Raised exn

text \<open>
  \<open>OPDVisit.is_today\<close> parses \<open>visit_date\<close> with \<open>datetime.strptime\<close>, which raises
  \<open>ValueError\<close> on a string of another format, and compares its date with the date of
  \<open>datetime.now()\<close>. The library's parser and the clock are parameters: \<open>strptime_date\<close>
  gives the day a string denotes (\<open>None\<close> where \<open>strptime\<close> raises), \<open>today\<close> the
  current day.
\<close>

record clock =
  strptime_date :: "string \<Rightarrow> nat option"
  today :: nat

definition is_today :: "clock \<Rightarrow> opd_visit \<Rightarrow> bool outcome" where
  "is_today ck v =
     (case strptime_date ck (visit_date v) of
        None \<Rightarrow> Raised ValueError
      | Some d \<Rightarrow> Returned (d = today ck))"

text \<open>
  \<^verbatim>\<open>
  def get_todays_opd_visits(self):
      visits = self.get_opd_visits()
      return [visit for visit in visits if visit.is_today()]
  \<close>
  The comprehension tests the visits in order; the first raise ends it.
\<close>

fun todays_visits :: "clock \<Rightarrow> opd_visit list \<Rightarrow> opd_visit list outcome" where
  "todays_visits ck [] = Returned []"
| "todays_visits ck (v # vs) =
     (case is_today ck v of
        Raised e \<Rightarrow> Raised e
      | Returned b \<Rightarrow>
          (case todays_visits ck vs of
             Raised e \<Rightarrow> Raised e
           | Returned r \<Rightarrow> Returned (if b then v # r else r)))"

definition get_todays_opd_visits :: "clock \<Rightarrow> data_manager \<Rightarrow> opd_visit list outcome" where
  "get_todays_opd_visits ck dm = todays_visits ck (stored_opd_visits dm)"

text \<open>
  The constructor itself:
  \<^verbatim>\<open>
  self.tts_available = False
  try:
      import pyttsx3
      self.tts_engine = pyttsx3.init()
      ...
      self.tts_available = True
  except ImportError:
      print("Text-to-speech not available. Using callback method only.")
      self.tts_engine = None
  \<close>
  Only \<open>ImportError\<close> is caught: any other exception of the speech library leaves
  the constructor, and no object exists.
\<close>

datatype tts_probe = Tts_ready | Tts_import_error | Tts_other_error

definition AnnouncementSystem_new :: "tts_probe \<Rightarrow> announcement_system outcome" where
  "AnnouncementSystem_new probe =
     (case probe of
        Tts_ready \<Rightarrow> Returned (AnnouncementSystem_init True)
      | Tts_import_error \<Rightarrow> Returned (AnnouncementSystem_init False)
      | Tts_other_error \<Rightarrow> Raised SpeechLibraryException)"

section \<open>Generated ids (models/patient.py, models/opd.py)\<close>








section \<open>Announcing (utils/announcement.py, class AnnouncementSystem, continued)\<close>

text \<open>
  The two sinks. The display callback is the function given to the constructor; the
  speech engine is used when \<open>tts_available\<close> is set (the constructor sets the flag
  exactly when it has an engine). Whether a call of a sink raises is given by the
  surroundings and may depend on the message and on everything the sinks were asked
  to do before.
\<close>

record sinks =
  callback_raises :: "event list \<Rightarrow> string \<Rightarrow> bool"
  tts_raises :: "event list \<Rightarrow> string \<Rightarrow> bool"

text \<open>\<open>self.announcement_callback(message)\<close>, not inside any \<open>try\<close>.\<close>

definition call_callback ::
  "sinks \<Rightarrow> string \<Rightarrow> announcement_system \<Rightarrow> unit outcome \<times> announcement_system" where
  "call_callback sk message s =
     (if callback_raises sk (sink_log s) message
      then (Raised CallbackException, s\<lparr>sink_log := sink_log s @ [CallbackRaised message]\<rparr>)
      else (Returned (), s\<lparr>sink_log := sink_log s @ [Callback message]\<rparr>))"

text \<open>
  \<^verbatim>\<open>
  if self.tts_available and self.tts_engine:
      try:
          self.tts_engine.say(message)
          self.tts_engine.runAndWait()
      except Exception as e:
          print(f"TTS error: {e}")
  \<close>
\<close>

definition speak :: "sinks \<Rightarrow> string \<Rightarrow> announcement_system \<Rightarrow> announcement_system" where
  "speak sk message s =
     (if tts_available s
      then (if tts_raises sk (sink_log s) message
            then s\<lparr>sink_log := sink_log s @ [TtsErrorPrinted message]\<rparr>
            else s\<lparr>sink_log := sink_log s @ [Spoken message]\<rparr>)
      else s)"

definition deliver ::
  "sinks \<Rightarrow> string \<Rightarrow> announcement_system \<Rightarrow> unit outcome \<times> announcement_system" where
  "deliver sk message s =
     (case call_callback sk message s of
        (Raised e, s') \<Rightarrow> (Raised e, s')
      | (Returned u, s') \<Rightarrow> (Returned (), speak sk message s'))"

definition completion_message :: "string \<Rightarrow> string \<Rightarrow> string" where
  "completion_message pname dname =
     ''Patient '' @ pname @ '' consultation with '' @ dname
     @ '' is complete. Please collect your prescription from the front desk.''"

definition announce_patient_completion ::
  "sinks \<Rightarrow> string \<Rightarrow> string \<Rightarrow> announcement_system \<Rightarrow> unit outcome \<times> announcement_system" where
  "announce_patient_completion sk pname dname s = deliver sk (completion_message pname dname) s"

text \<open>
  \<^verbatim>\<open>
  def add_manual_announcement(self, patient_name, custom_message=None):
      message = custom_message or f"Patient {patient_name}, please proceed to the front desk."
      self.announcement_callback(message)
      if self.tts_available and self.tts_engine: ...
  \<close>
  \<open>None\<close> and the empty string are both falsy.
\<close>

definition manual_message :: "string \<Rightarrow> string option \<Rightarrow> string" where
  "manual_message pname custom_message =
     (case custom_message of
        Some m \<Rightarrow> if m \<noteq> [] then m else ''Patient '' @ pname @ '', please proceed to the front desk.''
      | None \<Rightarrow> ''Patient '' @ pname @ '', please proceed to the front desk.'')"

definition add_manual_announcement ::
  "sinks \<Rightarrow> string \<Rightarrow> string option \<Rightarrow> announcement_system
   \<Rightarrow> unit outcome \<times> announcement_system" where
  "add_manual_announcement sk pname custom_message s =
     deliver sk (manual_message pname custom_message) s"

text \<open>\<open>announcement_key = f"{visit.patient_id}_{visit.visit_id}"\<close>\<close>

definition announcement_key :: "opd_visit \<Rightarrow> string" where
  "announcement_key v = patient_id v @ ''_'' @ visit_id v"

text \<open>
  The loop of \<open>_check_and_announce_completed_patients\<close> over the completed visits:
  \<^verbatim>\<open>
  for visit in completed_visits:
      announcement_key = f"{visit.patient_id}_{visit.visit_id}"
      if announcement_key not in self.announced_patients:
          patient = self.data_manager.get_patient_by_id(visit.patient_id)
          if patient:
              self._announce_patient_completion(patient.name, visit.doctor_name)
              self.announced_patients.add(announcement_key)
  \<close>
  A \<open>Patient\<close> object is truthy. An exception raised by the announcement leaves the
  loop at once.
\<close>

fun announce_completed ::
  "sinks \<Rightarrow> data_manager \<Rightarrow> opd_visit list \<Rightarrow> announcement_system
   \<Rightarrow> unit outcome \<times> announcement_system" where
  "announce_completed sk dm [] s = (Returned (), s)"
| "announce_completed sk dm (visit # visits) s =
     (if announcement_key visit \<notin> announced_patients s
      then (case get_patient_by_id (patient_id visit) dm of
              Some patient \<Rightarrow>
                (case announce_patient_completion sk (pat_name patient) (doctor_name visit) s of
                   (Raised e, s') \<Rightarrow> (Raised e, s')
                 | (Returned u, s') \<Rightarrow>
                     announce_completed sk dm visits
                       (s'\<lparr>announced_patients := insert (announcement_key visit) (announced_patients s'),
                          poll_announced := poll_announced s' @ [(patient_id visit, visit_id visit)]\<rparr>))
            | None \<Rightarrow> announce_completed sk dm visits s)
      else announce_completed sk dm visits s)"

text \<open>What one wake of the background thread finds: the clock, the store and the sinks.\<close>

record surroundings =
  the_clock :: clock
  the_store :: data_manager
  the_sinks :: sinks

definition check_and_announce_completed_patients ::
  "surroundings \<Rightarrow> announcement_system \<Rightarrow> unit outcome \<times> announcement_system" where
  "check_and_announce_completed_patients w s =
     (case get_todays_opd_visits (the_clock w) (the_store w) of
        Raised e \<Rightarrow> (Raised e, s)
      | Returned today_visits \<Rightarrow>
          announce_completed (the_sinks w) (the_store w)
            (filter (\<lambda>visit. status visit = ''Completed'') today_visits) s)"


definition clear_announced_patients :: "announcement_system \<Rightarrow> announcement_system" where
  "clear_announced_patients s =
     s\<lparr>announced_patients := {},
       sink_log := sink_log s @ [Printed ''Announced patients list cleared'']\<rparr>"

text \<open>How many times the poll cycle has announced the visit with the ids of \<open>v\<close>.\<close>

definition poll_count :: "opd_visit \<Rightarrow> announcement_system \<Rightarrow> nat" where
  "poll_count v s = count_list (poll_announced s) (patient_id v, visit_id v)"

text \<open>
  \<^verbatim>\<open>
  def start_announcement_service(self):
      if self.is_running:
          return
      self.is_running = True
      ...
      print("Announcement service started")
  \<close>
  The thread it starts is \<open>announcement_loop\<close>.
\<close>

definition start_announcement_service :: "announcement_system \<Rightarrow> announcement_system" where
  "start_announcement_service s =
     (if is_running s then s
      else s\<lparr>is_running := True,
             sink_log := sink_log s @ [Printed ''Announcement service started'']\<rparr>)"

section \<open>Scenarios\<close>

text \<open>
  A store with one patient and one completed visit of today, sinks that work, a speech
  engine that always fails, and a display callback that always raises.
\<close>

definition jane :: patient where
  "jane = \<lparr>pat_patient_id = ''P1'', pat_name = ''Jane'', age = 40, gender = ''Female'',
            contact = '''', address = '''', phone = ''555-0100'',
            registration_date = ''2024-01-01 08:30:00'', appointments = [], opd_visits = [''V1''],
            medical_history = []\<rparr>"

definition janes_visit :: opd_visit where
  "janes_visit = \<lparr>visit_id = ''V1'', patient_id = ''P1'', doctor_name = ''Dr. Smith'',
      visit_date = ''2024-01-01 09:00:00'', symptoms = ''cough'', diagnosis = ''flu'',
      prescription = ''rest'', lab_tests = '''', follow_up_date = '''', visit_notes = '''',
      status = ''Completed'', vital_signs = Map.empty\<rparr>"

definition new_year_clock :: clock where
  "new_year_clock =
     \<lparr>strptime_date = (\<lambda>d. if take 10 d = ''2024-01-01'' \<and> length d = 19 then Some 19723 else None),
      today = 19723\<rparr>"

definition working_sinks :: sinks where
  "working_sinks = \<lparr>callback_raises = (\<lambda>log m. False), tts_raises = (\<lambda>log m. False)\<rparr>"

definition speech_failing_sinks :: sinks where
  "speech_failing_sinks = \<lparr>callback_raises = (\<lambda>log m. False), tts_raises = (\<lambda>log m. True)\<rparr>"

definition display_failing_sinks :: sinks where
  "display_failing_sinks = \<lparr>callback_raises = (\<lambda>log m. True), tts_raises = (\<lambda>log m. False)\<rparr>"

definition janes_world :: "sinks \<Rightarrow> surroundings" where
  "janes_world sk =
     \<lparr>the_clock = new_year_clock,
      the_store = \<lparr>stored_patients = [jane], stored_opd_visits = [janes_visit]\<rparr>,
      the_sinks = sk\<rparr>"





section \<open>Properties\<close>

text \<open>
  C5. For every integer \<open>s\<close>, after \<open>set_announcement_interval s\<close> the interval reported
  by \<open>get_announcement_status\<close> is \<open>max 10 s\<close>: a value below 10 is clamped to 10 and
  a value of at least 10 is stored as it is; 5 gives 10 and 45 gives 45. No other
  attribute of the system changes.
\<close>

theorem set_announcement_interval_clamps:
  "st_announcement_interval (get_announcement_status (set_announcement_interval s sys)) = max 10 s
   \<and> st_announcement_interval (get_announcement_status (set_announcement_interval s sys))
       = (if s < 10 then 10 else s)
   \<and> st_announcement_interval (get_announcement_status (set_announcement_interval 5 sys)) = 10
   \<and> st_announcement_interval (get_announcement_status (set_announcement_interval 45 sys)) = 45
   \<and> set_announcement_interval s sys = sys\<lparr>announcement_interval := max 10 s\<rparr>"
  by (simp add: set_announcement_interval_def get_announcement_status_def)

text \<open>
  C10. For a visit whose \<open>visit_date\<close> is not empty, \<open>mark_completed\<close> sets \<open>status\<close>
  to \<open>Completed\<close> and changes no other field; for a visit whose \<open>visit_date\<close> is empty
  it sets \<open>status\<close> and \<open>visit_date\<close> and nothing else.
\<close>

theorem mark_completed_frame:
  "(visit_date v \<noteq> [] \<longrightarrow> mark_completed now v = v\<lparr>status := ''Completed''\<rparr>)
   \<and> (visit_date v = [] \<longrightarrow>
        mark_completed now v = v\<lparr>status := ''Completed'', visit_date := now\<rparr>)"
  by (simp add: mark_completed_def Let_def)

theorem mark_completed_frame_witness:
  "mark_completed ''2024-01-02 10:00:00''
     \<lparr>visit_id = ''V1'', patient_id = ''P1'', doctor_name = ''Dr. Smith'',
      visit_date = ''2024-01-01 09:00:00'', symptoms = ''cough'', diagnosis = '''',
      prescription = '''', lab_tests = '''', follow_up_date = '''', visit_notes = '''',
      status = ''In Progress'', vital_signs = Map.empty\<rparr>
   = \<lparr>visit_id = ''V1'', patient_id = ''P1'', doctor_name = ''Dr. Smith'',
      visit_date = ''2024-01-01 09:00:00'', symptoms = ''cough'', diagnosis = '''',
      prescription = '''', lab_tests = '''', follow_up_date = '''', visit_notes = '''',
      status = ''Completed'', vital_signs = Map.empty\<rparr>
   \<and> mark_completed ''2024-01-02 10:00:00''
     \<lparr>visit_id = ''V1'', patient_id = ''P1'', doctor_name = ''Dr. Smith'',
      visit_date = '''', symptoms = ''cough'', diagnosis = '''',
      prescription = '''', lab_tests = '''', follow_up_date = '''', visit_notes = '''',
      status = ''In Progress'', vital_signs = Map.empty\<rparr>
   = \<lparr>visit_id = ''V1'', patient_id = ''P1'', doctor_name = ''Dr. Smith'',
      visit_date = ''2024-01-02 10:00:00'', symptoms = ''cough'', diagnosis = '''',
      prescription = '''', lab_tests = '''', follow_up_date = '''', visit_notes = '''',
      status = ''Completed'', vital_signs = Map.empty\<rparr>"
  using mark_completed_frame
      [of "\<lparr>visit_id = ''V1'', patient_id = ''P1'', doctor_name = ''Dr. Smith'',
      visit_date = ''2024-01-01 09:00:00'', symptoms = ''cough'', diagnosis = '''',
      prescription = '''', lab_tests = '''', follow_up_date = '''', visit_notes = '''',
      status = ''In Progress'', vital_signs = Map.empty\<rparr>" "''2024-01-02 10:00:00''"]
    mark_completed_frame
      [of "\<lparr>visit_id = ''V1'', patient_id = ''P1'', doctor_name = ''Dr. Smith'',
      visit_date = '''', symptoms = ''cough'', diagnosis = '''',
      prescription = '''', lab_tests = '''', follow_up_date = '''', visit_notes = '''',
      status = ''In Progress'', vital_signs = Map.empty\<rparr>" "''2024-01-02 10:00:00''"]
  by simp

subsection \<open>The waiting queue, completion records and doctor slots\<close>


lemma list_index_None: "list_index xs y = None \<longleftrightarrow> y \<notin> set xs"
  by (induction xs) auto

lemma list_index_takeWhile: "y \<in> set xs \<Longrightarrow> list_index xs y = Some (length (takeWhile (\<lambda>x. x \<noteq> y) xs))"
  by (induction xs) auto

lemma position_in: "p \<in> set (queue q) \<Longrightarrow>
   get_queue_position p q = int (length (takeWhile (\<lambda>x. x \<noteq> p) (queue q))) + 1"
  by (simp add: get_queue_position_def list_index_takeWhile)

lemma position_notin: "p \<notin> set (queue q) \<Longrightarrow> get_queue_position p q = - 1"
  using list_index_None[of "queue q" p] by (simp add: get_queue_position_def)

lemma distinct_queue_call: "distinct (queue q) \<Longrightarrow> distinct (queue (apply_opd_queue_call c q))"
  by (cases c) (auto simp: add_patient_def remove_patient_def mark_patient_completed_def
      mark_announced_def clear_completed_today_def)

lemma distinct_fold: "distinct (queue q) \<Longrightarrow> distinct (queue (fold apply_opd_queue_call cs q))"
  by (induction cs arbitrary: q) (auto simp: distinct_queue_call)

lemma distinct_queue_after: "distinct (queue (opd_queue_after cs))"
  unfolding opd_queue_after_def by (rule distinct_fold) (simp add: OPDQueue_init_def)

lemma add_patient_twice: "add_patient p (add_patient p q) = add_patient p q"
  by (simp add: add_patient_def)

lemma count_list_distinct: "distinct xs \<Longrightarrow> count_list xs p = (if p \<in> set xs then 1 else 0)"
  by (induction xs) auto

lemma in_queue_add: "p \<in> set (queue (add_patient p q))"
  by (simp add: add_patient_def)

lemma distinct_add: "distinct (queue q) \<Longrightarrow> distinct (queue (add_patient p q))"
  by (simp add: add_patient_def)

lemma position_add_other: "p \<in> set (queue q) \<Longrightarrow> get_queue_position p (add_patient x q) = get_queue_position p q"
  by (cases "x \<in> set (queue q)") (simp_all add: add_patient_def position_in)

lemma takeWhile_remove1_behind:
  "p \<in> set xs \<Longrightarrow> x \<noteq> p \<Longrightarrow> x \<notin> set (takeWhile (\<lambda>y. y \<noteq> p) xs) \<Longrightarrow>
   takeWhile (\<lambda>y. y \<noteq> p) (remove1 x xs) = takeWhile (\<lambda>y. y \<noteq> p) xs"
  by (induction xs) auto

lemma takeWhile_remove1_ahead:
  "x \<in> set (takeWhile (\<lambda>y. y \<noteq> p) xs) \<Longrightarrow>
   Suc (length (takeWhile (\<lambda>y. y \<noteq> p) (remove1 x xs))) = length (takeWhile (\<lambda>y. y \<noteq> p) xs)"
  by (induction xs) (auto split: if_splits)

lemma position_remove_behind:
  assumes "p \<in> set (queue q)" "x \<noteq> p" "x \<notin> set (takeWhile (\<lambda>y. y \<noteq> p) (queue q))"
  shows "get_queue_position p (remove_patient x q) = get_queue_position p q"
proof (cases "x \<in> set (queue q)")
  case True
  with assms have "p \<in> set (queue (remove_patient x q))" by (simp add: remove_patient_def)
  then show ?thesis using assms True
    by (simp add: position_in) (simp add: remove_patient_def takeWhile_remove1_behind)
next
  case False then show ?thesis by (simp add: remove_patient_def)
qed

lemma position_remove_ahead:
  assumes "x \<in> set (takeWhile (\<lambda>y. y \<noteq> p) (queue q))" "p \<in> set (queue q)"
  shows "get_queue_position p (remove_patient x q) = get_queue_position p q - 1"
proof -
  from assms(1) have xq: "x \<in> set (queue q)" and xp: "x \<noteq> p"
    by (auto dest: set_takeWhileD)
  with assms have "p \<in> set (queue (remove_patient x q))" by (simp add: remove_patient_def)
  then show ?thesis using takeWhile_remove1_ahead[OF assms(1)] assms(2) xq
    by (simp add: position_in) (simp add: remove_patient_def)
qed

lemma position_remove_self:
  "distinct (queue q) \<Longrightarrow> get_queue_position p (remove_patient p q) = - 1"
  by (rule position_notin) (simp add: remove_patient_def)

lemma remove_absent: "x \<notin> set (queue q) \<Longrightarrow> remove_patient x q = q"
  by (simp add: remove_patient_def)


lemma position_ge1: "p \<in> set (queue q) \<Longrightarrow> 1 \<le> get_queue_position p q"
  by (simp add: position_in)

lemma mark_announced_loop_first:
  "(\<forall>x\<in>set pre. \<not> (name x = n \<and> \<not> announced x)) \<Longrightarrow> name r = n \<Longrightarrow> \<not> announced r \<Longrightarrow>
   mark_announced_loop n (pre @ r # post) = pre @ r\<lparr>announced := True\<rparr> # post"
  by (induction pre) auto

lemma mark_announced_loop_none:
  "(\<forall>x\<in>set cs. \<not> (name x = n \<and> \<not> announced x)) \<Longrightarrow> mark_announced_loop n cs = cs"
  by (induction cs) auto

text \<open>
  C6 (as amended). Let \<open>q\<close> be the queue after any sequence of calls on a new
  \<open>OPDQueue\<close>. Adding \<open>p\<close> twice gives the same queue as adding it once, and that
  queue contains \<open>p\<close> exactly once; the position of \<open>p\<close> (1-based, \<open>-1\<close> when absent)
  is the same after the second \<open>add_patient\<close> as after the first. While \<open>p\<close> is
  waiting, its position is unchanged by every \<open>add_patient\<close> (new ids are appended
  behind it), by \<open>mark_patient_completed\<close> and \<open>mark_announced\<close>, and by
  \<open>remove_patient\<close> of an id that is absent or behind \<open>p\<close>; it drops by one when
  an id ahead of \<open>p\<close> is removed and is \<open>-1\<close> after \<open>p\<close> itself is removed or the queue
  is cleared. \<open>remove_patient\<close> of an absent id leaves the queue as it is.
\<close>

theorem add_patient_idempotent_position:
  "let q = opd_queue_after calls in
     add_patient p (add_patient p q) = add_patient p q
   \<and> count_list (queue (add_patient p (add_patient p q))) p = 1
   \<and> get_queue_position p (add_patient p (add_patient p q)) = get_queue_position p (add_patient p q)
   \<and> 1 \<le> get_queue_position p (add_patient p q)
   \<and> (p \<in> set (queue q) \<longrightarrow>
        (\<forall>x. get_queue_position p (add_patient x q) = get_queue_position p q)
      \<and> (\<forall>x. x \<noteq> p \<and> x \<notin> set (takeWhile (\<lambda>y. y \<noteq> p) (queue q)) \<longrightarrow>
              get_queue_position p (remove_patient x q) = get_queue_position p q)
      \<and> (\<forall>x. x \<in> set (takeWhile (\<lambda>y. y \<noteq> p) (queue q)) \<longrightarrow>
              get_queue_position p (remove_patient x q) = get_queue_position p q - 1)
      \<and> get_queue_position p (remove_patient p q) = - 1)
   \<and> (\<forall>x. x \<notin> set (queue q) \<longrightarrow> remove_patient x q = q \<and> get_queue_position x q = - 1)
   \<and> get_queue_position p (mark_patient_completed now n q) = get_queue_position p q
   \<and> get_queue_position p (mark_announced n q) = get_queue_position p q
   \<and> get_queue_position p (clear_completed_today q) = - 1"
proof -
  define q where "q = opd_queue_after calls"
  have d: "distinct (queue q)" unfolding q_def by (rule distinct_queue_after)
  have 1: "add_patient p (add_patient p q) = add_patient p q" by (rule add_patient_twice)
  have 2: "count_list (queue (add_patient p (add_patient p q))) p = 1"
    using distinct_add[OF d, of p] by (simp add: 1 count_list_distinct in_queue_add)
  have 3: "1 \<le> get_queue_position p (add_patient p q)"
    by (rule position_ge1) (rule in_queue_add)
  have 4: "p \<in> set (queue q) \<longrightarrow>
        (\<forall>x. get_queue_position p (add_patient x q) = get_queue_position p q)
      \<and> (\<forall>x. x \<noteq> p \<and> x \<notin> set (takeWhile (\<lambda>y. y \<noteq> p) (queue q)) \<longrightarrow>
              get_queue_position p (remove_patient x q) = get_queue_position p q)
      \<and> (\<forall>x. x \<in> set (takeWhile (\<lambda>y. y \<noteq> p) (queue q)) \<longrightarrow>
              get_queue_position p (remove_patient x q) = get_queue_position p q - 1)
      \<and> get_queue_position p (remove_patient p q) = - 1"
    using d by (simp add: position_add_other position_remove_behind position_remove_ahead
        position_remove_self)
  have 5: "\<forall>x. x \<notin> set (queue q) \<longrightarrow> remove_patient x q = q \<and> get_queue_position x q = - 1"
    by (simp add: remove_absent position_notin)
  have 6: "get_queue_position p (mark_patient_completed now n q) = get_queue_position p q
     \<and> get_queue_position p (mark_announced n q) = get_queue_position p q
     \<and> get_queue_position p (clear_completed_today q) = - 1"
    by (simp add: get_queue_position_def mark_patient_completed_def mark_announced_def
        clear_completed_today_def)
  show ?thesis
    unfolding Let_def q_def[symmetric] using 1 2 3 4 5 6 by simp
qed

theorem add_patient_idempotent_position_witness:
  "''P2'' \<in> set (queue (opd_queue_after [Add_patient ''P1'', Add_patient ''P2'', Add_patient ''P3'']))
   \<and> get_queue_position ''P2''
        (add_patient ''P2'' (opd_queue_after [Add_patient ''P1'', Add_patient ''P2'', Add_patient ''P3''])) = 2
   \<and> get_queue_position ''P2''
        (remove_patient ''P3'' (opd_queue_after [Add_patient ''P1'', Add_patient ''P2'', Add_patient ''P3''])) = 2
   \<and> get_queue_position ''P2''
        (remove_patient ''P1'' (opd_queue_after [Add_patient ''P1'', Add_patient ''P2'', Add_patient ''P3''])) = 1
   \<and> get_queue_position ''P2''
        (remove_patient ''P2'' (opd_queue_after [Add_patient ''P1'', Add_patient ''P2'', Add_patient ''P3''])) = - 1
   \<and> remove_patient ''P9'' (opd_queue_after [Add_patient ''P1'', Add_patient ''P2'', Add_patient ''P3''])
      = opd_queue_after [Add_patient ''P1'', Add_patient ''P2'', Add_patient ''P3'']"
  using add_patient_idempotent_position
          [of "[Add_patient ''P1'', Add_patient ''P2'', Add_patient ''P3'']" "''P2''" "''10:00:00''" "''Jane''"]
  by (simp add: Let_def opd_queue_after_def OPDQueue_init_def add_patient_def remove_patient_def
        get_queue_position_def)

text \<open>
  The position of a waiting patient does change without that patient being removed and
  without anybody being put ahead: with \<open>P1\<close> waiting, \<open>P2\<close> added twice is at
  position 2, and after \<open>remove_patient P1\<close> it is at position 1.
\<close>

theorem position_not_stable_counterexample:
  "get_queue_position ''P2''
     (add_patient ''P2'' (add_patient ''P2'' (opd_queue_after [Add_patient ''P1'']))) = 2
   \<and> queue (remove_patient ''P1''
        (add_patient ''P2'' (add_patient ''P2'' (opd_queue_after [Add_patient ''P1''])))) = [''P2'']
   \<and> get_queue_position ''P2''
       (remove_patient ''P1''
         (add_patient ''P2'' (add_patient ''P2'' (opd_queue_after [Add_patient ''P1''])))) = 1"
  by (simp add: opd_queue_after_def OPDQueue_init_def add_patient_def remove_patient_def
        get_queue_position_def)

text \<open>
  C7. \<open>mark_announced n\<close> sets \<open>announced\<close> on the first record of \<open>completed_today\<close>
  whose name is \<open>n\<close> and whose flag is false, and changes nothing else: the records
  before it, the records after it (also unflagged ones of the same name) and the
  waiting queue are as before. When no record has name \<open>n\<close> and a false flag the
  call changes nothing.
\<close>

theorem mark_announced_first_match:
  "(\<forall>pre r post.
       completed_today q = pre @ r # post
       \<and> (\<forall>x\<in>set pre. \<not> (name x = n \<and> \<not> announced x))
       \<and> name r = n \<and> \<not> announced r
       \<longrightarrow> completed_today (mark_announced n q) = pre @ r\<lparr>announced := True\<rparr> # post)
   \<and> ((\<forall>x\<in>set (completed_today q). \<not> (name x = n \<and> \<not> announced x))
        \<longrightarrow> mark_announced n q = q)
   \<and> queue (mark_announced n q) = queue q"
  by (simp add: mark_announced_def mark_announced_loop_first mark_announced_loop_none)


theorem mark_announced_first_match_witness:
  "completed_today (mark_announced ''Jane''
     \<lparr>queue = [''P1''],
      completed_today =
        [\<lparr>name = ''Jane'', completed_at = ''09:00:00'', announced = True\<rparr>,
         \<lparr>name = ''Bob'', completed_at = ''09:05:00'', announced = False\<rparr>,
         \<lparr>name = ''Jane'', completed_at = ''09:10:00'', announced = False\<rparr>,
         \<lparr>name = ''Jane'', completed_at = ''09:20:00'', announced = False\<rparr>]\<rparr>)
   = [\<lparr>name = ''Jane'', completed_at = ''09:00:00'', announced = True\<rparr>,
      \<lparr>name = ''Bob'', completed_at = ''09:05:00'', announced = False\<rparr>,
      \<lparr>name = ''Jane'', completed_at = ''09:10:00'', announced = True\<rparr>,
      \<lparr>name = ''Jane'', completed_at = ''09:20:00'', announced = False\<rparr>]
   \<and> mark_announced ''Ann''
     \<lparr>queue = [''P1''],
      completed_today =
        [\<lparr>name = ''Jane'', completed_at = ''09:00:00'', announced = True\<rparr>,
         \<lparr>name = ''Bob'', completed_at = ''09:05:00'', announced = False\<rparr>]\<rparr>
   = \<lparr>queue = [''P1''],
      completed_today =
        [\<lparr>name = ''Jane'', completed_at = ''09:00:00'', announced = True\<rparr>,
         \<lparr>name = ''Bob'', completed_at = ''09:05:00'', announced = False\<rparr>]\<rparr>"
proof -
  let ?q = "\<lparr>queue = [''P1''],
      completed_today =
        [\<lparr>name = ''Jane'', completed_at = ''09:00:00'', announced = True\<rparr>,
         \<lparr>name = ''Bob'', completed_at = ''09:05:00'', announced = False\<rparr>,
         \<lparr>name = ''Jane'', completed_at = ''09:10:00'', announced = False\<rparr>,
         \<lparr>name = ''Jane'', completed_at = ''09:20:00'', announced = False\<rparr>]\<rparr>"
  let ?q2 = "\<lparr>queue = [''P1''],
      completed_today =
        [\<lparr>name = ''Jane'', completed_at = ''09:00:00'', announced = True\<rparr>,
         \<lparr>name = ''Bob'', completed_at = ''09:05:00'', announced = False\<rparr>]\<rparr>"
  have a: "completed_today ?q =
      [\<lparr>name = ''Jane'', completed_at = ''09:00:00'', announced = True\<rparr>,
       \<lparr>name = ''Bob'', completed_at = ''09:05:00'', announced = False\<rparr>]
      @ \<lparr>name = ''Jane'', completed_at = ''09:10:00'', announced = False\<rparr>
      # [\<lparr>name = ''Jane'', completed_at = ''09:20:00'', announced = False\<rparr>]
    \<and> (\<forall>x\<in>set [\<lparr>name = ''Jane'', completed_at = ''09:00:00'', announced = True\<rparr>,
       \<lparr>name = ''Bob'', completed_at = ''09:05:00'', announced = False\<rparr>].
           \<not> (name x = ''Jane'' \<and> \<not> announced x))
    \<and> name \<lparr>name = ''Jane'', completed_at = ''09:10:00'', announced = False\<rparr> = ''Jane''
    \<and> \<not> announced \<lparr>name = ''Jane'', completed_at = ''09:10:00'', announced = False\<rparr>"
    by simp
  have b: "\<forall>x\<in>set (completed_today ?q2). \<not> (name x = ''Ann'' \<and> \<not> announced x)"
    by simp
  from mark_announced_first_match[of ?q "''Jane''"] a
  have 1: "completed_today (mark_announced ''Jane'' ?q) =
      [\<lparr>name = ''Jane'', completed_at = ''09:00:00'', announced = True\<rparr>,
       \<lparr>name = ''Bob'', completed_at = ''09:05:00'', announced = False\<rparr>]
      @ \<lparr>name = ''Jane'', completed_at = ''09:10:00'', announced = False\<rparr>\<lparr>announced := True\<rparr>
      # [\<lparr>name = ''Jane'', completed_at = ''09:20:00'', announced = False\<rparr>]"
    by blast
  from mark_announced_first_match[of ?q2 "''Ann''"] b
  have 2: "mark_announced ''Ann'' ?q2 = ?q2" by blast
  from 1 2 show ?thesis by simp
qed

lemma find_doctor_slots_find:
  "find_doctor_slots ds dn = (case find (\<lambda>d. doc_name d = dn) ds of None \<Rightarrow> [] | Some d \<Rightarrow> slots d)"
  by (induction ds) auto

lemma collect_booked_slots_filter:
  "collect_booked_slots dn date as =
     map appointment_time (filter (\<lambda>a. appt_doctor_name a = dn \<and> appointment_date a = date
         \<and> appt_status a \<in> {''Scheduled'', ''Completed''}) as)"
  by (induction as) auto

lemma get_available_slots_in_filter:
  "get_available_slots_in ds dn date as =
    (case find (\<lambda>d. doc_name d = dn) ds of None \<Rightarrow> []
     | Some d \<Rightarrow> filter (\<lambda>slot. \<not> (\<exists>a\<in>set as. appt_doctor_name a = dn \<and> appointment_date a = date
           \<and> appt_status a \<in> {''Scheduled'', ''Completed''} \<and> appointment_time a = slot)) (slots d))"
proof -
  have eq: "(\<lambda>slot. slot \<notin> set (collect_booked_slots dn date as)) =
     (\<lambda>slot. \<not> (\<exists>a\<in>set as. appt_doctor_name a = dn \<and> appointment_date a = date
           \<and> appt_status a \<in> {''Scheduled'', ''Completed''} \<and> appointment_time a = slot))"
    by (auto simp: collect_booked_slots_filter fun_eq_iff)
  show ?thesis
    unfolding get_available_slots_in_def Let_def eq find_doctor_slots_find
    by (simp split: option.splits)
qed

lemma find_None_name: "dn \<notin> doc_name ` set ds \<Longrightarrow> find (\<lambda>d. doc_name d = dn) ds = None"
  by (induction ds) auto

text \<open>
  C2. \<open>get_available_slots\<close> returns the slot template of the first doctor of that name
  in \<open>DEFAULT_DOCTORS\<close>, filtered (so in template order) to the slots for which no
  appointment of the list has this doctor, this date, a status \<open>Scheduled\<close> or
  \<open>Completed\<close> and the slot as its time. Appointments with status \<open>Cancelled\<close> or
  \<open>No-Show\<close> can be dropped from the list without changing the result, and a list of
  only such appointments leaves the template whole. A name that is no doctor's gives
  the empty list.
\<close>

theorem get_available_slots_correct:
  "get_available_slots dn date as =
    (case find (\<lambda>d. doc_name d = dn) DEFAULT_DOCTORS of None \<Rightarrow> []
     | Some d \<Rightarrow> filter (\<lambda>slot. \<not> (\<exists>a\<in>set as. appt_doctor_name a = dn \<and> appointment_date a = date
           \<and> appt_status a \<in> {''Scheduled'', ''Completed''} \<and> appointment_time a = slot)) (slots d))
   \<and> get_available_slots dn date as =
       get_available_slots dn date (filter (\<lambda>a. appt_status a \<notin> {''Cancelled'', ''No-Show''}) as)
   \<and> ((\<forall>a\<in>set as. appt_status a \<in> {''Cancelled'', ''No-Show''}) \<longrightarrow>
        get_available_slots dn date as = find_doctor_slots DEFAULT_DOCTORS dn)
   \<and> (dn \<notin> doc_name ` set DEFAULT_DOCTORS \<longrightarrow> get_available_slots dn date as = [])"
proof -
  have 1: "get_available_slots dn date as =
    (case find (\<lambda>d. doc_name d = dn) DEFAULT_DOCTORS of None \<Rightarrow> []
     | Some d \<Rightarrow> filter (\<lambda>slot. \<not> (\<exists>a\<in>set as. appt_doctor_name a = dn \<and> appointment_date a = date
           \<and> appt_status a \<in> {''Scheduled'', ''Completed''} \<and> appointment_time a = slot)) (slots d))"
    by (simp add: get_available_slots_def get_available_slots_in_filter)
  have c: "collect_booked_slots dn date (filter (\<lambda>a. appt_status a \<notin> {''Cancelled'', ''No-Show''}) as)
           = collect_booked_slots dn date as"
    by (induction as) auto
  have 2: "get_available_slots dn date as =
       get_available_slots dn date (filter (\<lambda>a. appt_status a \<notin> {''Cancelled'', ''No-Show''}) as)"
    by (simp only: get_available_slots_def get_available_slots_in_def c)
  have 3: "(\<forall>a\<in>set as. appt_status a \<in> {''Cancelled'', ''No-Show''}) \<longrightarrow>
        get_available_slots dn date as = find_doctor_slots DEFAULT_DOCTORS dn"
  proof
    assume h: "\<forall>a\<in>set as. appt_status a \<in> {''Cancelled'', ''No-Show''}"
    then have "collect_booked_slots dn date as = []"
      by (induction as) auto
    then show "get_available_slots dn date as = find_doctor_slots DEFAULT_DOCTORS dn"
      by (simp add: get_available_slots_def get_available_slots_in_def Let_def)
  qed
  have 4: "dn \<notin> doc_name ` set DEFAULT_DOCTORS \<longrightarrow> get_available_slots dn date as = []"
    using find_None_name[of dn DEFAULT_DOCTORS]
    by (simp add: get_available_slots_def get_available_slots_in_filter)
  from 1 2 3 4 show ?thesis by blast
qed


theorem get_available_slots_correct_witness:
  "get_available_slots ''Dr. Smith'' ''2030-05-01''
     [\<lparr>appointment_id = ''A1'', appt_patient_id = ''P1'', appt_doctor_name = ''Dr. Smith'',
       department = ''General Medicine'', appointment_date = ''2030-05-01'',
       appointment_time = ''10:00'', appt_status = ''Scheduled'', appt_notes = '''',
       created_date = ''2030-04-01 08:00:00''\<rparr>]
     = [''09:00'', ''11:00'', ''14:00'', ''15:00'', ''16:00'']
   \<and> get_available_slots ''Dr. Smith'' ''2030-05-01''
     [\<lparr>appointment_id = ''A1'', appt_patient_id = ''P1'', appt_doctor_name = ''Dr. Smith'',
       department = ''General Medicine'', appointment_date = ''2030-05-01'',
       appointment_time = ''10:00'', appt_status = ''Cancelled'', appt_notes = '''',
       created_date = ''2030-04-01 08:00:00''\<rparr>]
     = [''09:00'', ''10:00'', ''11:00'', ''14:00'', ''15:00'', ''16:00'']
   \<and> get_available_slots ''Dr. Nobody'' ''2030-05-01''
     [\<lparr>appointment_id = ''A1'', appt_patient_id = ''P1'', appt_doctor_name = ''Dr. Nobody'',
       department = ''General Medicine'', appointment_date = ''2030-05-01'',
       appointment_time = ''10:00'', appt_status = ''Scheduled'', appt_notes = '''',
       created_date = ''2030-04-01 08:00:00''\<rparr>]
     = []"
  using get_available_slots_correct [of "''Dr. Smith''" "''2030-05-01''"
     "[\<lparr>appointment_id = ''A1'', appt_patient_id = ''P1'', appt_doctor_name = ''Dr. Smith'',
       department = ''General Medicine'', appointment_date = ''2030-05-01'',
       appointment_time = ''10:00'', appt_status = ''Scheduled'', appt_notes = '''',
       created_date = ''2030-04-01 08:00:00''\<rparr>]"]
    get_available_slots_correct [of "''Dr. Smith''" "''2030-05-01''"
     "[\<lparr>appointment_id = ''A1'', appt_patient_id = ''P1'', appt_doctor_name = ''Dr. Smith'',
       department = ''General Medicine'', appointment_date = ''2030-05-01'',
       appointment_time = ''10:00'', appt_status = ''Cancelled'', appt_notes = '''',
       created_date = ''2030-04-01 08:00:00''\<rparr>]"]
    get_available_slots_correct [of "''Dr. Nobody''" "''2030-05-01''"
     "[\<lparr>appointment_id = ''A1'', appt_patient_id = ''P1'', appt_doctor_name = ''Dr. Nobody'',
       department = ''General Medicine'', appointment_date = ''2030-05-01'',
       appointment_time = ''10:00'', appt_status = ''Scheduled'', appt_notes = '''',
       created_date = ''2030-04-01 08:00:00''\<rparr>]"]
  by (simp add: DEFAULT_DOCTORS_def)

subsection \<open>The announcement queue\<close>


lemma first_not_announced_find:
  "first_not_announced xs = find (\<lambda>i. \<not> item_announced i) xs"
  by (induction xs) auto

lemma insert_by_priority_sorted:
  "sorted_wrt (\<lambda>a b. priority b \<le> priority a) xs \<Longrightarrow>
   insert_by_priority new xs =
     filter (\<lambda>i. priority new \<le> priority i) xs @ [new] @ filter (\<lambda>i. priority i < priority new) xs"
proof (induction xs)
  case Nil then show ?case by simp
next
  case (Cons x xs)
  show ?case
  proof (cases "priority new > priority x")
    case True
    with Cons.prems have "\<forall>y\<in>set xs. priority y < priority new" by auto
    then have "filter (\<lambda>i. priority new \<le> priority i) xs = []"
      and "filter (\<lambda>i. priority i < priority new) xs = xs"
      by (auto simp: filter_empty_conv filter_id_conv)
    with True show ?thesis by simp
  next
    case False
    with Cons show ?thesis by simp
  qed
qed

lemma mark_item_announced_keys:
  "map (\<lambda>i. (priority i, added_at i)) (mark_item_announced pid now xs) = map (\<lambda>i. (priority i, added_at i)) xs"
  by (induction xs) auto

lemma mark_item_announced_rel:
  "list_all2 (\<lambda>a b. b = a \<or> b = a\<lparr>item_announced := True, announced_at := Some now\<rparr>)
     xs (mark_item_announced pid now xs)"
  by (induction xs) (auto simp: list.rel_refl)

lemma by_priority_map: "by_priority xs = sorted_wrt (\<lambda>a b. fst b \<le> fst a) (map (\<lambda>i. (priority i, added_at i)) xs)"
  by (simp add: sorted_wrt_map)

lemma fifo_map: "fifo xs = sorted_wrt (\<lambda>a b. fst a = fst b \<longrightarrow> snd a \<le> snd b) (map (\<lambda>i. (priority i, added_at i)) xs)"
  by (simp add: sorted_wrt_map)

lemma set_insert_by_priority: "set (insert_by_priority new xs) = insert new (set xs)"
  by (induction xs) auto

lemma by_priority_insert: "by_priority xs \<Longrightarrow> by_priority (insert_by_priority new xs)"
  by (induction xs) (auto simp: set_insert_by_priority)

lemma by_priority_call: "by_priority (items q) \<Longrightarrow> by_priority (items (apply_announcement_queue_call c q))"
proof (cases c)
  case (Add_to_queue a b p t)
  assume "by_priority (items q)" then show ?thesis using Add_to_queue
    by (simp add: add_to_queue_def by_priority_insert)
next
  case (Mark_announced_item pid t)
  assume "by_priority (items q)" then show ?thesis using Mark_announced_item
    by (simp add: AnnouncementQueue_mark_announced_def by_priority_map mark_item_announced_keys)
next
  case (Remove_from_queue pid)
  assume "by_priority (items q)" then show ?thesis using Remove_from_queue
    by (simp add: remove_from_queue_def sorted_wrt_filter)
next
  case Clear_queue
  then show ?thesis by (simp add: clear_queue_def)
qed

lemma announcement_queue_after_snoc:
  "announcement_queue_after (cs @ [c]) = apply_announcement_queue_call c (announcement_queue_after cs)"
  by (simp add: announcement_queue_after_def)

lemma by_priority_after: "by_priority (items (announcement_queue_after cs))"
proof (induction cs rule: rev_induct)
  case Nil show ?case by (simp add: announcement_queue_after_def AnnouncementQueue_init_def)
next
  case (snoc c cs) then show ?case by (simp add: announcement_queue_after_snoc by_priority_call)
qed

lemma add_times_append: "add_times (xs @ ys) = add_times xs @ add_times ys"
  by (induction xs rule: add_times.induct) auto

lemma added_at_mark: "added_at ` set (mark_item_announced pid now xs) = added_at ` set xs"
proof -
  have "map added_at (mark_item_announced pid now xs) = map added_at xs"
    by (induction xs) auto
  then have "set (map added_at (mark_item_announced pid now xs)) = set (map added_at xs)" by simp
  then show ?thesis by simp
qed

lemma added_at_call:
  "added_at ` set (items (apply_announcement_queue_call c q)) \<subseteq> added_at ` set (items q) \<union> set (add_times [c])"
  by (cases c) (auto simp: add_to_queue_def set_insert_by_priority AnnouncementQueue_mark_announced_def
      added_at_mark remove_from_queue_def clear_queue_def)

lemma added_at_after: "added_at ` set (items (announcement_queue_after cs)) \<subseteq> set (add_times cs)"
proof (induction cs rule: rev_induct)
  case Nil show ?case by (simp add: announcement_queue_after_def AnnouncementQueue_init_def)
next
  case (snoc c cs)
  show ?case using added_at_call[of c "announcement_queue_after cs"] snoc
    by (auto simp: announcement_queue_after_snoc add_times_append)
qed

lemma fifo_insert:
  assumes "by_priority xs" "fifo xs" "\<forall>x\<in>set xs. added_at x \<le> added_at new"
  shows "fifo (insert_by_priority new xs)"
proof -
  have "insert_by_priority new xs =
     filter (\<lambda>i. priority new \<le> priority i) xs @ [new] @ filter (\<lambda>i. priority i < priority new) xs"
    using assms(1) by (rule insert_by_priority_sorted)
  moreover have "sorted_wrt (\<lambda>a b. priority a = priority b \<longrightarrow> added_at a \<le> added_at b)
     (filter (\<lambda>i. priority new \<le> priority i) xs @ [new] @ filter (\<lambda>i. priority i < priority new) xs)"
    using assms(2,3)
    by (auto simp: sorted_wrt_append sorted_wrt_filter)
  ultimately show ?thesis by simp
qed

lemma fifo_after: "sorted (add_times cs) \<Longrightarrow> fifo (items (announcement_queue_after cs))"
proof (induction cs rule: rev_induct)
  case Nil show ?case by (simp add: announcement_queue_after_def AnnouncementQueue_init_def)
next
  case (snoc c cs)
  from snoc.prems have s: "sorted (add_times cs)" and le: "\<forall>t\<in>set (add_times cs). \<forall>u\<in>set (add_times [c]). t \<le> u"
    by (auto simp: add_times_append sorted_append)
  let ?q = "announcement_queue_after cs"
  have f: "fifo (items ?q)" using snoc.IH s by simp
  have b: "by_priority (items ?q)" by (rule by_priority_after)
  show ?case
  proof (cases c)
    case (Add_to_queue a pid p t)
    have "\<forall>x\<in>set (items ?q). added_at x \<le> t"
      using added_at_after[of cs] le Add_to_queue by auto
    then show ?thesis using Add_to_queue f b
      by (simp add: announcement_queue_after_snoc add_to_queue_def fifo_insert)
  next
    case (Mark_announced_item pid t)
    then show ?thesis using f
      by (simp add: announcement_queue_after_snoc AnnouncementQueue_mark_announced_def fifo_map mark_item_announced_keys)
  next
    case (Remove_from_queue pid)
    then show ?thesis using f
      by (simp add: announcement_queue_after_snoc remove_from_queue_def sorted_wrt_filter)
  next
    case Clear_queue
    then show ?thesis by (simp add: announcement_queue_after_snoc clear_queue_def)
  qed
qed

lemma first_not_announced_None:
  "first_not_announced xs = None \<longleftrightarrow> (\<forall>i\<in>set xs. item_announced i)"
  by (induction xs) auto

text \<open>
  C9. After any sequence of \<open>add_to_queue\<close>, \<open>mark_announced\<close>, \<open>remove_from_queue\<close>
  and \<open>clear_queue\<close> calls on a new \<open>AnnouncementQueue\<close>, the items are in
  non-increasing priority order, and when the clock readings of the additions do not
  decrease, items of equal priority are in the order of their \<open>added_at\<close>. A new
  item goes behind every item of at least its priority and before every item of
  lower priority; \<open>mark_announced\<close> changes no position and \<open>remove_from_queue\<close> keeps
  the order of what remains. \<open>get_next_announcement\<close> returns the first item whose
  \<open>announced\<close> flag is false, and nothing exactly when every item is announced (so also
  for the empty queue).
\<close>

theorem announcement_queue_priority_order:
  "let q = announcement_queue_after calls in
     sorted_wrt (\<lambda>a b. priority b \<le> priority a) (items q)
   \<and> (sorted (add_times calls) \<longrightarrow>
        sorted_wrt (\<lambda>a b. priority a = priority b \<longrightarrow> added_at a \<le> added_at b) (items q))
   \<and> items (add_to_queue pname pid prio now q) =
        filter (\<lambda>i. prio \<le> priority i) (items q)
        @ [\<lparr>patient_name = pname, item_patient_id = pid, priority = prio, added_at = now,
            item_announced = False, announced_at = None\<rparr>]
        @ filter (\<lambda>i. priority i < prio) (items q)
   \<and> list_all2 (\<lambda>a b. b = a \<or> b = a\<lparr>item_announced := True, announced_at := Some now\<rparr>)
        (items q) (items (AnnouncementQueue_mark_announced pid now q))
   \<and> items (remove_from_queue pid q) = filter (\<lambda>i. item_patient_id i \<noteq> pid) (items q)
   \<and> get_next_announcement q = find (\<lambda>i. \<not> item_announced i) (items q)
   \<and> (get_next_announcement q = None \<longleftrightarrow> (\<forall>i\<in>set (items q). item_announced i))"
proof -
  define q where "q = announcement_queue_after calls"
  have 1: "sorted_wrt (\<lambda>a b. priority b \<le> priority a) (items q)"
    unfolding q_def by (rule by_priority_after)
  have 2: "sorted (add_times calls) \<longrightarrow>
        sorted_wrt (\<lambda>a b. priority a = priority b \<longrightarrow> added_at a \<le> added_at b) (items q)"
    unfolding q_def by (simp add: fifo_after)
  have 3: "items (add_to_queue pname pid prio now q) =
        filter (\<lambda>i. prio \<le> priority i) (items q)
        @ [\<lparr>patient_name = pname, item_patient_id = pid, priority = prio, added_at = now,
            item_announced = False, announced_at = None\<rparr>]
        @ filter (\<lambda>i. priority i < prio) (items q)"
    using insert_by_priority_sorted[OF 1,
        of "\<lparr>patient_name = pname, item_patient_id = pid, priority = prio, added_at = now,
            item_announced = False, announced_at = None\<rparr>"]
    by (simp add: add_to_queue_def)
  have 4: "list_all2 (\<lambda>a b. b = a \<or> b = a\<lparr>item_announced := True, announced_at := Some now\<rparr>)
        (items q) (items (AnnouncementQueue_mark_announced pid now q))"
    by (simp add: AnnouncementQueue_mark_announced_def mark_item_announced_rel)
  have 5: "items (remove_from_queue pid q) = filter (\<lambda>i. item_patient_id i \<noteq> pid) (items q)"
    by (simp add: remove_from_queue_def)
  have 6: "get_next_announcement q = find (\<lambda>i. \<not> item_announced i) (items q)"
    by (simp add: get_next_announcement_def first_not_announced_find)
  have 7: "get_next_announcement q = None \<longleftrightarrow> (\<forall>i\<in>set (items q). item_announced i)"
    by (simp add: get_next_announcement_def first_not_announced_None)
  show ?thesis unfolding Let_def q_def[symmetric] using 1 2 3 4 5 6 7 by blast
qed

theorem announcement_queue_priority_order_witness:
  "sorted (add_times [Add_to_queue ''Ann'' ''P1'' 0 1, Add_to_queue ''Bob'' ''P2'' 5 2,
        Add_to_queue ''Cyd'' ''P3'' 0 3, Add_to_queue ''Dee'' ''P4'' 5 4,
        Mark_announced_item ''P2'' 5])
   \<and> map patient_name (items (announcement_queue_after
       [Add_to_queue ''Ann'' ''P1'' 0 1, Add_to_queue ''Bob'' ''P2'' 5 2,
        Add_to_queue ''Cyd'' ''P3'' 0 3, Add_to_queue ''Dee'' ''P4'' 5 4,
        Mark_announced_item ''P2'' 5])) = [''Bob'', ''Dee'', ''Ann'', ''Cyd'']
   \<and> sorted_wrt (\<lambda>a b. priority a = priority b \<longrightarrow> added_at a \<le> added_at b)
       (items (announcement_queue_after
       [Add_to_queue ''Ann'' ''P1'' 0 1, Add_to_queue ''Bob'' ''P2'' 5 2,
        Add_to_queue ''Cyd'' ''P3'' 0 3, Add_to_queue ''Dee'' ''P4'' 5 4,
        Mark_announced_item ''P2'' 5]))
   \<and> map_option patient_name (get_next_announcement (announcement_queue_after
       [Add_to_queue ''Ann'' ''P1'' 0 1, Add_to_queue ''Bob'' ''P2'' 5 2,
        Add_to_queue ''Cyd'' ''P3'' 0 3, Add_to_queue ''Dee'' ''P4'' 5 4,
        Mark_announced_item ''P2'' 5])) = Some ''Dee''"
  using announcement_queue_priority_order
     [of "[Add_to_queue ''Ann'' ''P1'' 0 1, Add_to_queue ''Bob'' ''P2'' 5 2,
        Add_to_queue ''Cyd'' ''P3'' 0 3, Add_to_queue ''Dee'' ''P4'' 5 4,
        Mark_announced_item ''P2'' 5]"]
  by (simp add: Let_def announcement_queue_after_def AnnouncementQueue_init_def add_to_queue_def
        AnnouncementQueue_mark_announced_def get_next_announcement_def)

subsection \<open>The poll cycle and manual announcements\<close>


lemma deliver_frame:
  "announced_patients (snd (deliver sk m s)) = announced_patients s
   \<and> poll_announced (snd (deliver sk m s)) = poll_announced s
   \<and> is_running (snd (deliver sk m s)) = is_running s
   \<and> tts_available (snd (deliver sk m s)) = tts_available s"
  by (simp add: deliver_def call_callback_def speak_def)

lemma deliver_fst:
  "fst (deliver sk m s) =
     (if callback_raises sk (sink_log s) m then Raised CallbackException else Returned ())"
  by (simp add: deliver_def call_callback_def)


lemma announce_frame:
  "announced_patients (snd (announce_patient_completion sk n d s)) = announced_patients s
   \<and> poll_announced (snd (announce_patient_completion sk n d s)) = poll_announced s
   \<and> is_running (snd (announce_patient_completion sk n d s)) = is_running s
   \<and> tts_available (snd (announce_patient_completion sk n d s)) = tts_available s"
  by (simp add: announce_patient_completion_def deliver_frame)

lemma announce_fst:
  "fst (announce_patient_completion sk n d s) =
     (if callback_raises sk (sink_log s) (completion_message n d)
      then Raised CallbackException else Returned ())"
  by (simp add: announce_patient_completion_def deliver_fst)

lemma ac_present [simp]:
  "announcement_key v \<in> announced_patients s \<Longrightarrow>
   announce_completed sk dm (v # vs) s = announce_completed sk dm vs s"
  by simp




declare announce_completed.simps(2) [simp del]

lemma speak_frame [simp]:
  "announced_patients (speak sk m s) = announced_patients s"
  "poll_announced (speak sk m s) = poll_announced s"
  "is_running (speak sk m s) = is_running s"
  "tts_available (speak sk m s) = tts_available s"
  by (simp_all add: speak_def)



























lemmas scenario_defs =
  janes_world_def new_year_clock_def working_sinks_def jane_def janes_visit_def

lemmas system_defs =
  check_and_announce_completed_patients_def get_todays_opd_visits_def is_today_def
  get_patient_by_id_def announcement_key_def announce_patient_completion_def deliver_def
  call_callback_def speak_def completion_message_def start_announcement_service_def
  AnnouncementSystem_init_def clear_announced_patients_def poll_count_def
  announce_completed.simps(2)

















text \<open>
  C8 (as amended). What \<open>add_manual_announcement\<close> gives back to its caller depends
  on the display callback alone: it raises exactly when the callback raises, and
  otherwise returns, whether the speech engine spoke, failed (the error is only
  printed) or is absent. The announced set is never touched.
\<close>

theorem manual_announcement_outcome:
  "fst (add_manual_announcement sk pname custom s) =
     (if callback_raises sk (sink_log s) (manual_message pname custom)
      then Raised CallbackException else Returned ())
   \<and> sink_log (snd (add_manual_announcement sk pname custom s)) =
     (if callback_raises sk (sink_log s) (manual_message pname custom)
      then sink_log s @ [CallbackRaised (manual_message pname custom)]
      else if \<not> tts_available s
      then sink_log s @ [Callback (manual_message pname custom)]
      else if tts_raises sk (sink_log s @ [Callback (manual_message pname custom)])
                (manual_message pname custom)
      then sink_log s @ [Callback (manual_message pname custom),
                         TtsErrorPrinted (manual_message pname custom)]
      else sink_log s @ [Callback (manual_message pname custom),
                         Spoken (manual_message pname custom)])
   \<and> announced_patients (snd (add_manual_announcement sk pname custom s)) = announced_patients s"
  by (simp add: add_manual_announcement_def deliver_def call_callback_def speak_def)



text \<open>
  A manual announcement whose speech delivery fails returns to the caller exactly as
  one whose speech delivery succeeds.
\<close>

theorem manual_speech_failure_counterexample:
  "add_manual_announcement speech_failing_sinks ''Jane'' None
      (start_announcement_service (AnnouncementSystem_init True))
   = (Returned (),
      \<lparr>is_running = True, tts_available = True, pending_announcements = [],
       announced_patients = {}, announcement_interval = 30,
       sink_log = [Printed ''Announcement service started'',
                   Callback ''Patient Jane, please proceed to the front desk.'',
                   TtsErrorPrinted ''Patient Jane, please proceed to the front desk.''],
       poll_announced = []\<rparr>)
   \<and> fst (add_manual_announcement working_sinks ''Jane'' None
      (start_announcement_service (AnnouncementSystem_init True))) = Returned ()"
  by (simp add: scenario_defs speech_failing_sinks_def system_defs add_manual_announcement_def manual_message_def)

text \<open>
  A display callback that raises reaches the caller; an empty custom message gives
  the default text and a failing speech engine a normal return.
\<close>

theorem manual_announcement_outcome_witness:
  "fst (add_manual_announcement display_failing_sinks ''Jane'' (Some ''Jane, room 2 please'')
          (start_announcement_service (AnnouncementSystem_init True))) = Raised CallbackException
   \<and> fst (add_manual_announcement speech_failing_sinks ''Jane'' (Some '''')
          (start_announcement_service (AnnouncementSystem_init True))) = Returned ()"
  using manual_announcement_outcome
          [of display_failing_sinks "''Jane''" "Some ''Jane, room 2 please''"
              "start_announcement_service (AnnouncementSystem_init True)"]
        manual_announcement_outcome
          [of speech_failing_sinks "''Jane''" "Some ''''"
              "start_announcement_service (AnnouncementSystem_init True)"]
  by (simp add: display_failing_sinks_def speech_failing_sinks_def)

end
